theory Spec2Isabelle
  imports Complex_Main
begin

section \<open>Python values used by the emotion detection client\<close>

text \<open>
  The text to analyse is a Python \<open>str\<close>: a sequence of Unicode code points. It is
  modelled as a list of code points, so that \<open>str.strip\<close> sees the characters Python sees.
  Keys and string values of the parsed JSON body are only compared with ASCII literals or
  handed to \<open>float\<close>; they are kept as HOL strings.
\<close>

type_synonym unicode = "nat list"

text \<open>
  A Python \<open>float\<close>: a finite value, the negative zero, an infinity or a NaN. A finite
  double is represented by its exact rational value; \<open>Fin 0\<close> is \<open>0.0\<close> and \<open>NegZero\<close> is
  \<open>-0.0\<close>. Python compares the two zeros equal, but prints them differently.
\<close>

datatype pyfloat = Fin rat | NegZero | PInf | NInf | NaN

text \<open>The value \<open>resp.json()\<close> returns: what Python's JSON decoder builds.\<close>

datatype json =
    JNull
  | JBool bool
  | JInt int
  | JFloat pyfloat
  | JStr string
  | JArr "json list"
  | JObj "(string \<times> json) list"

text \<open>
  The exceptions the client can end with. \<open>requests.post\<close> fails with a transport-level
  exception; the others come from Python's attribute lookup, subscription and \<open>float\<close>.
\<close>

datatype transport_failure = ConnectionError | Timeout

datatype py_exn =
    TransportFailure transport_failure
  | AttributeError
  | TypeError
  | KeyError
  | IndexError
  | ValueError
  | OverflowError

text \<open>
  Builtins of Python whose results on strings and integers depend on the IEEE rounding of
  the interpreter: \<open>float(s)\<close> for a string (\<open>None\<close> is \<open>ValueError\<close>), \<open>float(i)\<close> for an
  integer (\<open>None\<close> is \<open>OverflowError\<close>) and \<open>str(f)\<close> of a float, used by f-strings.
  They are parameters of the model.
\<close>

record builtins =
  float_of_str :: "string \<Rightarrow> pyfloat option"
  float_of_int :: "int \<Rightarrow> pyfloat option"
  float_repr :: "pyfloat \<Rightarrow> string"

subsection \<open>Comparison of floats\<close>

text \<open>Python's \<open>a > b\<close> on floats: false as soon as one operand is a NaN.\<close>

fun py_gt :: "pyfloat \<Rightarrow> pyfloat \<Rightarrow> bool" where
  "py_gt NaN _ = False"
| "py_gt _ NaN = False"
| "py_gt PInf PInf = False"
| "py_gt PInf _ = True"
| "py_gt _ PInf = False"
| "py_gt NInf _ = False"
| "py_gt _ NInf = True"
| "py_gt (Fin a) (Fin b) = (b < a)"
| "py_gt (Fin a) NegZero = (0 < a)"
| "py_gt NegZero (Fin b) = (b < 0)"
| "py_gt NegZero NegZero = False"

text \<open>Python's \<open>a >= b\<close> on floats.\<close>

fun py_ge :: "pyfloat \<Rightarrow> pyfloat \<Rightarrow> bool" where
  "py_ge NaN _ = False"
| "py_ge _ NaN = False"
| "py_ge PInf _ = True"
| "py_ge _ PInf = False"
| "py_ge _ NInf = True"
| "py_ge NInf _ = False"
| "py_ge (Fin a) (Fin b) = (b \<le> a)"
| "py_ge (Fin a) NegZero = (0 \<le> a)"
| "py_ge NegZero (Fin b) = (b \<le> 0)"
| "py_ge NegZero NegZero = True"

text \<open>Python's \<open>a == b\<close> on floats: the two zeros are equal, a NaN equals nothing.\<close>

fun py_eq :: "pyfloat \<Rightarrow> pyfloat \<Rightarrow> bool" where
  "py_eq NaN _ = False"
| "py_eq _ NaN = False"
| "py_eq (Fin a) NegZero = (a = 0)"
| "py_eq NegZero (Fin b) = (b = 0)"
| "py_eq a b = (a = b)"

subsection \<open>Strings\<close>

text \<open>
  The code points for which \<open>str.isspace\<close> holds; \<open>str.strip()\<close> without argument
  removes exactly these from both ends.
\<close>

definition py_isspace :: "nat \<Rightarrow> bool" where
  "py_isspace c \<longleftrightarrow>
     (9 \<le> c \<and> c \<le> 13) \<or> (28 \<le> c \<and> c \<le> 32) \<or> c = 133 \<or> c = 160 \<or>
     c = 5760 \<or> (8192 \<le> c \<and> c \<le> 8202) \<or> c = 8232 \<or> c = 8233 \<or>
     c = 8239 \<or> c = 8287 \<or> c = 12288"

definition strip :: "unicode \<Rightarrow> unicode" where
  "strip s = rev (dropWhile py_isspace (rev (dropWhile py_isspace s)))"

subsection \<open>Operations on parsed JSON\<close>

text \<open>Truth value of an object, as \<open>not preds\<close> tests it.\<close>

fun truthy :: "json \<Rightarrow> bool" where
  "truthy JNull = False"
| "truthy (JBool b) = b"
| "truthy (JInt i) = (i \<noteq> 0)"
| "truthy (JFloat f) = (f \<noteq> Fin 0 \<and> f \<noteq> NegZero)"
| "truthy (JStr s) = (s \<noteq> [])"
| "truthy (JArr xs) = (xs \<noteq> [])"
| "truthy (JObj kvs) = (kvs \<noteq> [])"

text \<open>
  \<open>x.get(key, default)\<close>: only a dict has the method; on any other value the attribute
  lookup raises.
\<close>

fun py_get :: "json \<Rightarrow> string \<Rightarrow> json \<Rightarrow> py_exn + json" where
  "py_get (JObj kvs) k dflt = Inr (case map_of kvs k of None \<Rightarrow> dflt | Some v \<Rightarrow> v)"
| "py_get _ k dflt = Inl AttributeError"

text \<open>
  \<open>x[0]\<close>: the first element of a list, the first character of a string; a dict decoded
  from JSON has string keys only, so the integer key is missing; other values are not
  subscriptable.
\<close>

fun py_index0 :: "json \<Rightarrow> py_exn + json" where
  "py_index0 (JArr []) = Inl IndexError"
| "py_index0 (JArr (x # xs)) = Inr x"
| "py_index0 (JStr []) = Inl IndexError"
| "py_index0 (JStr (c # cs)) = Inr (JStr [c])"
| "py_index0 (JObj kvs) = Inl KeyError"
| "py_index0 _ = Inl TypeError"

text \<open>\<open>float(x)\<close> on a decoded JSON value.\<close>

fun py_float :: "builtins \<Rightarrow> json \<Rightarrow> py_exn + pyfloat" where
  "py_float B JNull = Inl TypeError"
| "py_float B (JBool b) = Inr (Fin (if b then 1 else 0))"
| "py_float B (JInt i) =
     (case float_of_int B i of None \<Rightarrow> Inl OverflowError | Some f \<Rightarrow> Inr f)"
| "py_float B (JFloat f) = Inr f"
| "py_float B (JStr s) =
     (case float_of_str B s of None \<Rightarrow> Inl ValueError | Some f \<Rightarrow> Inr f)"
| "py_float B (JArr xs) = Inl TypeError"
| "py_float B (JObj kvs) = Inl TypeError"

text \<open>Sequencing of statements that may raise: the first exception ends the function.\<close>

definition and_then :: "py_exn + 'a \<Rightarrow> ('a \<Rightarrow> py_exn + 'b) \<Rightarrow> py_exn + 'b" where
  "and_then r k = (case r of Inl e \<Rightarrow> Inl e | Inr v \<Rightarrow> k v)"

text \<open>
  \<open>max(a1, ..., an, key=...)\<close> on items paired with their key: the first item is the
  candidate, and a later item replaces it only when its key is greater.
\<close>

fun py_max_from :: "string \<times> pyfloat \<Rightarrow> (string \<times> pyfloat) list \<Rightarrow> string \<times> pyfloat" where
  "py_max_from best [] = best"
| "py_max_from best (x # xs) =
     (if py_gt (snd x) (snd best) then py_max_from x xs else py_max_from best xs)"

section \<open>The client: EmotionDetection/emotion\_detection.py\<close>

definition WATSON_URL :: string where
  "WATSON_URL =
     ''https://sn-watson-emotion.labs.skills.network/v1/watson.runtime.nlp.v1/NlpService/EmotionPredict''"

definition HEADERS :: "(string \<times> string) list" where
  "HEADERS = [(''grpc-metadata-mm-model-id'', ''emotion_aggregated-workflow_lang_en_stock'')]"

text \<open>The result dict: six keys, each value possibly \<open>None\<close>.\<close>

record result =
  anger :: "pyfloat option"
  disgust :: "pyfloat option"
  fear :: "pyfloat option"
  joy :: "pyfloat option"
  sadness :: "pyfloat option"
  dominant_emotion :: "string option"

definition EMPTY_RESULT :: result where
  "EMPTY_RESULT =
     \<lparr>anger = None, disgust = None, fear = None, joy = None, sadness = None,
      dominant_emotion = None\<rparr>"

text \<open>
  One call of \<open>requests.post\<close>: its arguments, and what the network answers. The
  payload \<open>{"raw_document": {"text": t}}\<close> is represented by \<open>t\<close>.
\<close>

record post_call =
  url :: string
  headers :: "(string \<times> string) list"
  payload_text :: unicode
  timeout :: nat

text \<open>
  The response, as far as the client reads it: the status code and the outcome of
  \<open>resp.json()\<close> (\<open>None\<close> when decoding raises).
\<close>

record response =
  status_code :: int
  json_body :: "json option"

type_synonym network = "post_call \<Rightarrow> transport_failure + response"

text \<open>Lines 49 to 56: the key of the item \<open>max\<close> selects among the five pairs.\<close>

definition dominant_of :: "pyfloat \<Rightarrow> pyfloat \<Rightarrow> pyfloat \<Rightarrow> pyfloat \<Rightarrow> pyfloat \<Rightarrow> string" where
  "dominant_of a d f j s =
     fst (py_max_from (''anger'', a)
            [(''disgust'', d), (''fear'', f), (''joy'', j), (''sadness'', s)])"

text \<open>Lines 42 to 65: the scores of the first prediction and the record built from them.\<close>

definition populated :: "builtins \<Rightarrow> json \<Rightarrow> py_exn + result" where
  "populated B preds =
     and_then (py_index0 preds) (\<lambda>first.
     and_then (py_get first ''emotion'' (JObj [])) (\<lambda>scores.
     and_then (and_then (py_get scores ''anger'' (JFloat (Fin 0))) (py_float B)) (\<lambda>a.
     and_then (and_then (py_get scores ''disgust'' (JFloat (Fin 0))) (py_float B)) (\<lambda>d.
     and_then (and_then (py_get scores ''fear'' (JFloat (Fin 0))) (py_float B)) (\<lambda>f.
     and_then (and_then (py_get scores ''joy'' (JFloat (Fin 0))) (py_float B)) (\<lambda>j.
     and_then (and_then (py_get scores ''sadness'' (JFloat (Fin 0))) (py_float B)) (\<lambda>s.
       let dominant = dominant_of a d f j s
       in Inr \<lparr>anger = Some a, disgust = Some d, fear = Some f, joy = Some j,
               sadness = Some s, dominant_emotion = Some dominant\<rparr>)))))))"

text \<open>Lines 28 to 65: what the client makes of a response.\<close>

definition read_response :: "builtins \<Rightarrow> response \<Rightarrow> py_exn + result" where
  "read_response B resp =
     (if status_code resp = 400 then Inr EMPTY_RESULT
      else case json_body resp of
             None \<Rightarrow> Inr EMPTY_RESULT
           | Some data \<Rightarrow>
               and_then (py_get data ''emotionPredictions'' (JArr [])) (\<lambda>preds.
                 if \<not> truthy preds then Inr EMPTY_RESULT else populated B preds))"

text \<open>The arguments of the one outbound call (line 26).\<close>

definition watson_request :: "unicode \<Rightarrow> post_call" where
  "watson_request text =
     \<lparr>url = WATSON_URL, headers = HEADERS, payload_text = text, timeout = 10\<rparr>"

text \<open>
  \<open>emotion_detector\<close> returns the record or ends with an exception; the second component
  lists the outbound calls it made, in order.
\<close>

definition emotion_detector ::
  "builtins \<Rightarrow> network \<Rightarrow> unicode \<Rightarrow> (py_exn + result) \<times> post_call list" where
  "emotion_detector B net text_to_analyze =
     (if text_to_analyze = [] \<or> strip text_to_analyze = [] then (Inr EMPTY_RESULT, [])
      else
        let call = watson_request text_to_analyze
        in case net call of
             Inl e \<Rightarrow> (Inl (TransportFailure e), [call])
           | Inr resp \<Rightarrow> (read_response B resp, [call]))"

section \<open>The endpoint: server.py\<close>

text \<open>
  The inbound request, as far as the handler reads it: the method, the query parameters
  (\<open>request.args\<close>) and the form fields (\<open>request.form\<close>).
\<close>

record request =
  http_method :: string
  args :: "string \<rightharpoonup> unicode"
  form :: "string \<rightharpoonup> unicode"

text \<open>\<open>(x or "")\<close> on the optional string \<open>.get\<close> returns.\<close>

definition or_empty :: "unicode option \<Rightarrow> unicode" where
  "or_empty v = (case v of None \<Rightarrow> [] | Some s \<Rightarrow> (if s = [] then [] else s))"

text \<open>A score placed in an f-string: \<open>str\<close> of the float, or of \<open>None\<close>.\<close>

definition fmt_score :: "builtins \<Rightarrow> pyfloat option \<Rightarrow> string" where
  "fmt_score B v = (case v of None \<Rightarrow> ''None'' | Some f \<Rightarrow> float_repr B f)"

definition formatted :: "builtins \<Rightarrow> result \<Rightarrow> string \<Rightarrow> string" where
  "formatted B r name =
     ''For the given statement, the system response is 'anger': '' @ fmt_score B (anger r) @
     '', 'disgust': '' @ fmt_score B (disgust r) @
     '', 'fear': '' @ fmt_score B (fear r) @
     '', 'joy': '' @ fmt_score B (joy r) @
     '' and 'sadness': '' @ fmt_score B (sadness r) @
     ''. The dominant emotion is '' @ name @ ''.''"

text \<open>
  The handler returns the body and the status code, or ends with the exception
  \<open>emotion_detector\<close> ended with; the outbound calls are those of \<open>emotion_detector\<close>.
\<close>

definition emotion_detector_route ::
  "builtins \<Rightarrow> network \<Rightarrow> request \<Rightarrow> (py_exn + string \<times> int) \<times> post_call list" where
  "emotion_detector_route B net req =
     (let text = (if http_method req = ''GET''
                  then strip (or_empty (args req ''textToAnalyze''))
                  else strip (or_empty (form req ''textToAnalyze'')))
      in case emotion_detector B net text of
           (Inl e, calls) \<Rightarrow> (Inl e, calls)
         | (Inr r, calls) \<Rightarrow>
             (case dominant_emotion r of
                None \<Rightarrow> (Inr (''Invalid text! Please try again!'', 200), calls)
              | Some name \<Rightarrow> (Inr (formatted B r name, 200), calls)))"

section \<open>The specification's notions\<close>

text \<open>The five keys, in the fixed order of the specification.\<close>

definition EMOTIONS :: "string list" where
  "EMOTIONS = [''anger'', ''disgust'', ''fear'', ''joy'', ''sadness'']"

text \<open>The entry \<open>r[k]\<close> of the result dict for one of the five score keys.\<close>

definition score_of :: "result \<Rightarrow> string \<Rightarrow> pyfloat option" where
  "score_of r k =
     (if k = ''anger'' then anger r else if k = ''disgust'' then disgust r
      else if k = ''fear'' then fear r else if k = ''joy'' then joy r
      else if k = ''sadness'' then sadness r else None)"

text \<open>
  The dominant emotion in the specification's words: the key with the maximum score, that
  is, a score at least as large as every score; among several such keys the earliest of
  the list. There is none when no score is a maximum.
\<close>

definition spec_dominant :: "(string \<times> pyfloat) list \<Rightarrow> string option" where
  "spec_dominant kvs =
     map_option fst (find (\<lambda>kv. list_all (\<lambda>kv'. py_ge (snd kv) (snd kv')) kvs) kvs)"

text \<open>The scores of a result, paired with their keys in the fixed order.\<close>

definition scored :: "pyfloat \<Rightarrow> pyfloat \<Rightarrow> pyfloat \<Rightarrow> pyfloat \<Rightarrow> pyfloat \<Rightarrow> (string \<times> pyfloat) list" where
  "scored a d f j s =
     [(''anger'', a), (''disgust'', d), (''fear'', f), (''joy'', j), (''sadness'', s)]"

text \<open>A whitespace-only (possibly empty) string.\<close>

definition blank :: "unicode \<Rightarrow> bool" where
  "blank s \<longleftrightarrow> list_all py_isspace s"

text \<open>
  The prediction entries a parsed body contains: the elements of its
  \<open>emotionPredictions\<close> list, none when there is no such list.
\<close>

definition prediction_entries :: "json \<Rightarrow> json list" where
  "prediction_entries data =
     (case data of
        JObj kvs \<Rightarrow> (case map_of kvs ''emotionPredictions'' of Some (JArr es) \<Rightarrow> es | _ \<Rightarrow> [])
      | _ \<Rightarrow> [])"

text \<open>
  A prediction entry whose scores can be read: an object whose \<open>emotion\<close> member, when
  present, is an object, and in it every value found under one of the five keys is one
  \<open>float\<close> accepts.
\<close>

definition readable_entry :: "builtins \<Rightarrow> json \<Rightarrow> bool" where
  "readable_entry B e =
     (case e of
        JObj ekvs \<Rightarrow>
          (case map_of ekvs ''emotion'' of
             None \<Rightarrow> True
           | Some (JObj m) \<Rightarrow>
               list_all (\<lambda>k. case map_of m k of
                                None \<Rightarrow> True
                              | Some v \<Rightarrow> (case py_float B v of Inl err \<Rightarrow> False | Inr x \<Rightarrow> True))
                 EMOTIONS
           | Some _ \<Rightarrow> False)
      | _ \<Rightarrow> False)"

section \<open>Concrete environments\<close>

text \<open>
  Instances of the parameters, for evaluating the model at concrete inputs. The builtins
  answer on a few arguments only, as Python does there (\<open>float("nan")\<close> is a NaN,
  \<open>float("high")\<close> raises, small integers convert exactly) and refuse the rest; floats
  print as Python prints these few values.
\<close>

definition sample_builtins :: builtins where
  "sample_builtins =
     \<lparr>float_of_str = (\<lambda>s. if s = ''nan'' then Some NaN else None),
      float_of_int = (\<lambda>i. if \<bar>i\<bar> \<le> 1000 then Some (Fin (of_int i)) else None),
      float_repr = (\<lambda>f. if f = Fin 0 then ''0.0'' else if f = NegZero then ''-0.0''
                         else if f = Fin (1 / 2) then ''0.5'' else if f = Fin 1 then ''1.0''
                         else if f = NaN then ''nan'' else ''?'')\<rparr>"

text \<open>A network that answers every call with the same response, or fails every call.\<close>

definition answering :: "int \<Rightarrow> json option \<Rightarrow> network" where
  "answering status body call = Inr \<lparr>status_code = status, json_body = body\<rparr>"

definition failing :: "transport_failure \<Rightarrow> network" where
  "failing e call = Inl e"

text \<open>The body \<open>{"emotionPredictions": [e1, e2, ...]}\<close>.\<close>

definition predictions :: "json list \<Rightarrow> json" where
  "predictions es = JObj [(''emotionPredictions'', JArr es)]"

text \<open>The entry \<open>{"emotion": {k1: v1, ...}}\<close>.\<close>

definition emotion_entry :: "(string \<times> json) list \<Rightarrow> json" where
  "emotion_entry m = JObj [(''emotion'', JObj m)]"

section \<open>Evaluation at concrete inputs\<close>

text \<open>The defining equations that a run of the client on a concrete input unfolds.\<close>

lemmas eval_defs = emotion_detector_def strip_def py_isspace_def answering_def failing_def
  watson_request_def read_response_def populated_def and_then_def predictions_def
  emotion_entry_def dominant_of_def sample_builtins_def Let_def

lemmas spec_eval_defs = spec_dominant_def scored_def

section \<open>Blank input and the outbound call\<close>

lemma strip_empty_iff: "strip s = [] \<longleftrightarrow> blank s"
proof
  assume "strip s = []"
  then have a: "\<forall>x \<in> set (dropWhile py_isspace s). py_isspace x"
    by (simp add: strip_def dropWhile_eq_Nil_conv)
  have "dropWhile py_isspace s = []"
  proof (rule ccontr)
    assume n: "dropWhile py_isspace s \<noteq> []"
    then have "\<not> py_isspace (hd (dropWhile py_isspace s))"
      by (rule hd_dropWhile)
    moreover from n have "hd (dropWhile py_isspace s) \<in> set (dropWhile py_isspace s)"
      by (rule hd_in_set)
    ultimately show False
      using a by blast
  qed
  then show "blank s"
    by (simp add: blank_def dropWhile_eq_Nil_conv list_all_iff)
next
  assume "blank s"
  then have d: "dropWhile py_isspace s = []"
    by (simp add: blank_def dropWhile_eq_Nil_conv list_all_iff)
  show "strip s = []"
    unfolding strip_def d by simp
qed

lemma blank_Nil: "blank []"
  by (simp add: blank_def)

lemma emotion_detector_blank:
  "blank text \<Longrightarrow> emotion_detector B net text = (Inr EMPTY_RESULT, [])"
  by (simp add: emotion_detector_def strip_empty_iff)

lemma not_blank_guard:
  "\<not> blank text \<Longrightarrow> \<not> (text = [] \<or> strip text = [])"
  using blank_Nil strip_empty_iff by blast

lemma emotion_detector_answered:
  assumes "\<not> blank text" and "net (watson_request text) = Inr resp"
  shows "emotion_detector B net text = (read_response B resp, [watson_request text])"
  using not_blank_guard [OF assms(1)] assms(2)
  by (simp add: emotion_detector_def)

lemma emotion_detector_failed:
  assumes "\<not> blank text" and "net (watson_request text) = Inl e"
  shows "emotion_detector B net text = (Inl (TransportFailure e), [watson_request text])"
  using not_blank_guard [OF assms(1)] assms(2)
  by (simp add: emotion_detector_def)

text \<open>
  Claim C2. For an input that is empty or consists of whitespace characters only,
  \<open>emotion_detector\<close> returns the record whose six fields are all \<open>None\<close>, and the list of
  outbound calls is empty: the network is not consulted, whatever it would answer.
\<close>

theorem blank_input_sentinel_without_call:
  assumes "text = [] \<or> (\<forall>c \<in> set text. py_isspace c)"
  shows "emotion_detector B net text =
           (Inr \<lparr>anger = None, disgust = None, fear = None, joy = None, sadness = None,
                  dominant_emotion = None\<rparr>, [])"
proof -
  from assms have "blank text"
    by (auto simp add: blank_def list_all_iff)
  then show ?thesis
    by (simp add: emotion_detector_blank EMPTY_RESULT_def)
qed

text \<open>The text of a space, a tab, a newline and an ideographic space (U+3000).\<close>

theorem blank_input_sentinel_without_call_witness:
  "(([32, 9, 10, 12288] :: unicode) = [] \<or> (\<forall>c \<in> set [32, 9, 10, 12288]. py_isspace c)) \<and>
   emotion_detector sample_builtins (failing Timeout) [32, 9, 10, 12288] =
     (Inr \<lparr>anger = None, disgust = None, fear = None, joy = None, sadness = None,
            dominant_emotion = None\<rparr>, [])"
proof -
  have h: "([32, 9, 10, 12288] :: unicode) = [] \<or> (\<forall>c \<in> set [32, 9, 10, 12288]. py_isspace c)"
    by (simp add: py_isspace_def)
  from h blank_input_sentinel_without_call [OF h, of sample_builtins "failing Timeout"]
  show ?thesis
    by (rule conjI)
qed

section \<open>The comparison of floats and the item selected by max\<close>

lemma py_ge_refl: "a \<noteq> NaN \<Longrightarrow> py_ge a a"
  by (cases a) simp_all

lemma py_gt_irrefl: "\<not> py_gt a a"
  by (cases a) simp_all

lemma py_gt_imp_ge: "py_gt a b \<Longrightarrow> py_ge a b"
  by (cases a; cases b) simp_all

lemma py_gt_not_ge: "py_gt a b \<Longrightarrow> \<not> py_ge b a"
  by (cases a; cases b) simp_all

lemma not_py_gt_imp_ge: "a \<noteq> NaN \<Longrightarrow> b \<noteq> NaN \<Longrightarrow> \<not> py_gt a b \<Longrightarrow> py_ge b a"
  by (cases a; cases b) simp_all

lemma py_gt_trans: "py_gt a b \<Longrightarrow> py_gt b c \<Longrightarrow> py_gt a c"
  by (cases a; cases b; cases c) simp_all

lemma py_gt_ge_trans: "py_gt a b \<Longrightarrow> py_ge b c \<Longrightarrow> py_gt a c"
  by (cases a; cases b; cases c) simp_all

lemma find_first:
  "\<forall>p \<in> set pre. \<not> P p \<Longrightarrow> P b \<Longrightarrow> find P (pre @ b # rest) = Some b"
  by (induction pre) simp_all

lemma py_max_from_split:
  assumes "\<forall>y \<in> set (pre @ best # mid @ xs). snd y \<noteq> NaN"
    and "\<forall>p \<in> set pre. py_gt (snd best) (snd p)"
    and "\<forall>m \<in> set mid. py_ge (snd best) (snd m)"
  shows "\<exists>pre' mid'. pre @ best # mid @ xs = pre' @ py_max_from best xs # mid' \<and>
           (\<forall>p \<in> set pre'. py_gt (snd (py_max_from best xs)) (snd p)) \<and>
           (\<forall>m \<in> set mid'. py_ge (snd (py_max_from best xs)) (snd m))"
  using assms
proof (induction xs arbitrary: pre best mid)
  case Nil
  then show ?case by auto
next
  case (Cons x xs)
  show ?case
  proof (cases "py_gt (snd x) (snd best)")
    case True
    have a: "\<forall>y \<in> set ((pre @ best # mid) @ x # [] @ xs). snd y \<noteq> NaN"
      using Cons.prems(1) by simp
    have b: "\<forall>p \<in> set (pre @ best # mid). py_gt (snd x) (snd p)"
      using True Cons.prems(2,3) by (auto intro: py_gt_trans py_gt_ge_trans)
    have c: "\<forall>m \<in> set []. py_ge (snd x) (snd m)"
      by simp
    from Cons.IH [OF a b c] True show ?thesis
      by simp
  next
    case False
    have a: "\<forall>y \<in> set (pre @ best # (mid @ [x]) @ xs). snd y \<noteq> NaN"
      using Cons.prems(1) by simp
    have "py_ge (snd best) (snd x)"
      using False Cons.prems(1) by (intro not_py_gt_imp_ge) auto
    then have c: "\<forall>m \<in> set (mid @ [x]). py_ge (snd best) (snd m)"
      using Cons.prems(3) by simp
    from Cons.IH [OF a Cons.prems(2) c] False show ?thesis
      by simp
  qed
qed

lemma spec_dominant_py_max_from:
  assumes "\<forall>y \<in> set (best # xs). snd y \<noteq> NaN"
  shows "spec_dominant (best # xs) = Some (fst (py_max_from best xs))"
proof -
  let ?R = "py_max_from best xs"
  let ?P = "\<lambda>kv. list_all (\<lambda>kv'. py_ge (snd kv) (snd kv')) (best # xs)"
  from py_max_from_split [of "[]" best "[]" xs] assms
  obtain pre' mid' where L: "best # xs = pre' @ ?R # mid'"
    and lt: "\<forall>p \<in> set pre'. py_gt (snd ?R) (snd p)"
    and ge: "\<forall>m \<in> set mid'. py_ge (snd ?R) (snd m)"
    by auto
  have mem: "?R \<in> set (best # xs)"
    by (subst L) simp
  with assms have "snd ?R \<noteq> NaN"
    by blast
  then have self: "py_ge (snd ?R) (snd ?R)"
    by (rule py_ge_refl)
  have PR: "?P ?R"
    unfolding list_all_iff
  proof
    fix y assume "y \<in> set (best # xs)"
    then have "y \<in> set pre' \<or> y = ?R \<or> y \<in> set mid'"
      by (subst (asm) L) auto
    then show "py_ge (snd ?R) (snd y)"
      using lt ge self py_gt_imp_ge by blast
  qed
  have nP: "\<forall>p \<in> set pre'. \<not> ?P p"
  proof
    fix p assume "p \<in> set pre'"
    with lt have "py_gt (snd ?R) (snd p)"
      by blast
    then have "\<not> py_ge (snd p) (snd ?R)"
      by (rule py_gt_not_ge)
    with mem show "\<not> ?P p"
      unfolding list_all_iff by blast
  qed
  have "find ?P (pre' @ ?R # mid') = Some ?R"
    using nP PR by (rule find_first)
  then have "find ?P (best # xs) = Some ?R"
    by (simp only: L [symmetric])
  then show ?thesis
    by (simp only: spec_dominant_def option.map)
qed

lemma py_max_from_mem: "py_max_from best xs \<in> set (best # xs)"
  by (induction xs arbitrary: best) auto

lemma dominant_of_spec:
  assumes "a \<noteq> NaN" "d \<noteq> NaN" "f \<noteq> NaN" "j \<noteq> NaN" "s \<noteq> NaN"
  shows "spec_dominant (scored a d f j s) = Some (dominant_of a d f j s)"
  unfolding scored_def dominant_of_def
  by (rule spec_dominant_py_max_from) (simp add: assms)

lemma dominant_of_emotion: "dominant_of a d f j s \<in> set EMOTIONS"
proof -
  have "py_max_from (''anger'', a) [(''disgust'', d), (''fear'', f), (''joy'', j), (''sadness'', s)]
          \<in> set [(''anger'', a), (''disgust'', d), (''fear'', f), (''joy'', j), (''sadness'', s)]"
    by (rule py_max_from_mem)
  then show ?thesis
    unfolding dominant_of_def EMOTIONS_def by auto
qed

lemma dominant_of_all_equal: "dominant_of v v v v v = ''anger''"
  by (simp add: dominant_of_def py_gt_irrefl)

lemma py_eq_not_gt: "py_eq a b \<Longrightarrow> \<not> py_gt b a"
  by (cases a; cases b) auto

lemma py_eq_trans: "py_eq a b \<Longrightarrow> py_eq b c \<Longrightarrow> py_eq a c"
  by (cases a; cases b; cases c) auto

lemma py_eq_same: "a \<noteq> NaN \<Longrightarrow> py_eq a a"
  by (cases a) simp_all

lemma dominant_of_all_py_eq:
  assumes "py_eq a d" and "py_eq d f" and "py_eq f j" and "py_eq j s"
  shows "dominant_of a d f j s = ''anger''"
proof -
  have af: "py_eq a f"
    using assms(1,2) by (rule py_eq_trans)
  then have aj: "py_eq a j"
    using assms(3) by (rule py_eq_trans)
  then have as: "py_eq a s"
    using assms(4) by (rule py_eq_trans)
  from assms(1) af aj as
  have "\<not> py_gt d a" "\<not> py_gt f a" "\<not> py_gt j a" "\<not> py_gt s a"
    by (simp_all add: py_eq_not_gt)
  then show ?thesis
    by (simp add: dominant_of_def)
qed

section \<open>The records the client returns\<close>

lemma populated_Inr:
  assumes "populated B preds = Inr r"
  shows "\<exists>a d f j s. r = \<lparr>anger = Some a, disgust = Some d, fear = Some f, joy = Some j,
            sadness = Some s, dominant_emotion = Some (dominant_of a d f j s)\<rparr>"
  using assms
  by (auto simp add: populated_def and_then_def Let_def split: sum.splits)

lemma read_response_Inr:
  assumes "read_response B resp = Inr r"
  shows "r = EMPTY_RESULT \<or> (\<exists>preds. populated B preds = Inr r)"
  using assms
  by (auto simp add: read_response_def and_then_def split: if_splits option.splits sum.splits)

lemma emotion_detector_Inr:
  assumes "fst (emotion_detector B net text) = Inr r"
  shows "r = EMPTY_RESULT \<or> (\<exists>resp. read_response B resp = Inr r)"
  using assms
  by (auto simp add: emotion_detector_def Let_def split: if_splits sum.splits)

lemma emotion_detector_shape:
  assumes "fst (emotion_detector B net text) = Inr r"
  shows "r = EMPTY_RESULT \<or>
         (\<exists>a d f j s. r = \<lparr>anger = Some a, disgust = Some d, fear = Some f, joy = Some j,
            sadness = Some s, dominant_emotion = Some (dominant_of a d f j s)\<rparr>)"
  using emotion_detector_Inr [OF assms] read_response_Inr populated_Inr
  by blast

section \<open>The dominant emotion\<close>

lemma spec_dominant_Some:
  assumes "spec_dominant L = Some k"
  shows "\<exists>v. (k, v) \<in> set L \<and> (\<forall>kv \<in> set L. py_ge v (snd kv))"
proof -
  let ?P = "\<lambda>kv. list_all (\<lambda>kv'. py_ge (snd kv) (snd kv')) L"
  from assms obtain kv where f: "find ?P L = Some kv" and k: "fst kv = k"
    by (auto simp add: spec_dominant_def)
  from f have "?P kv" and "kv \<in> set L"
    by (auto simp add: find_Some_iff)
  with k have "(k, snd kv) \<in> set L" and "\<forall>kv' \<in> set L. py_ge (snd kv) (snd kv')"
    by (auto simp add: list_all_iff)
  then show ?thesis
    by blast
qed

text \<open>
  Claim C1 (as amended). When \<open>emotion_detector\<close> returns a record with the five scores
  and none of them is a NaN, its \<open>dominant_emotion\<close> is the key the specification names: the
  earliest key, in the order anger, disgust, fear, joy, sadness, whose score is at least
  every score. That score is a maximum of the five, and when the five scores are equal
  (identical, or equal as Python's \<open>==\<close> has it, which takes the two zeros for equal) the
  dominant emotion is anger.
\<close>

theorem dominant_emotion_is_earliest_maximum:
  assumes "fst (emotion_detector B net text) = Inr r"
    and "anger r = Some a" and "disgust r = Some d" and "fear r = Some f"
    and "joy r = Some j" and "sadness r = Some s"
    and "a \<noteq> NaN" and "d \<noteq> NaN" and "f \<noteq> NaN" and "j \<noteq> NaN" and "s \<noteq> NaN"
  shows "dominant_emotion r = spec_dominant (scored a d f j s) \<and>
         (\<exists>k v. dominant_emotion r = Some k \<and> (k, v) \<in> set (scored a d f j s) \<and>
                 (\<forall>kv \<in> set (scored a d f j s). py_ge v (snd kv))) \<and>
         (a = d \<and> d = f \<and> f = j \<and> j = s \<longrightarrow> dominant_emotion r = Some ''anger'') \<and>
         (py_eq a d \<and> py_eq d f \<and> py_eq f j \<and> py_eq j s \<longrightarrow>
            dominant_emotion r = Some ''anger'')"
proof -
  from emotion_detector_shape [OF assms(1)] assms(2)
  obtain a' d' f' j' s' where
    r: "r = \<lparr>anger = Some a', disgust = Some d', fear = Some f', joy = Some j',
              sadness = Some s', dominant_emotion = Some (dominant_of a' d' f' j' s')\<rparr>"
    by (auto simp add: EMPTY_RESULT_def)
  with assms(2-6) have eq: "a' = a" "d' = d" "f' = f" "j' = j" "s' = s"
    by simp_all
  from r have dom: "dominant_emotion r = Some (dominant_of a d f j s)"
    by (simp add: eq)
  have spec: "spec_dominant (scored a d f j s) = Some (dominant_of a d f j s)"
    using assms(7-11) by (rule dominant_of_spec)
  have one: "dominant_emotion r = spec_dominant (scored a d f j s)"
    using dom spec by simp
  have two: "\<exists>k v. dominant_emotion r = Some k \<and> (k, v) \<in> set (scored a d f j s) \<and>
                 (\<forall>kv \<in> set (scored a d f j s). py_ge v (snd kv))"
    using spec_dominant_Some [OF spec] dom by blast
  have three: "a = d \<and> d = f \<and> f = j \<and> j = s \<longrightarrow> dominant_emotion r = Some ''anger''"
    using dom dominant_of_all_equal by auto
  have four: "py_eq a d \<and> py_eq d f \<and> py_eq f j \<and> py_eq j s \<longrightarrow>
            dominant_emotion r = Some ''anger''"
    using dom dominant_of_all_py_eq by auto
  from one two three four show ?thesis
    by blast
qed

text \<open>Fear and joy tie at 0.5: fear, the earlier key, is dominant.\<close>

theorem dominant_emotion_is_earliest_maximum_witness:
  "fst (emotion_detector sample_builtins
          (answering 200 (Some (predictions
             [emotion_entry [(''joy'', JFloat (Fin (1 / 2))), (''fear'', JFloat (Fin (1 / 2)))]])))
          [65]) =
     Inr \<lparr>anger = Some (Fin 0), disgust = Some (Fin 0), fear = Some (Fin (1 / 2)),
          joy = Some (Fin (1 / 2)), sadness = Some (Fin 0), dominant_emotion = Some ''fear''\<rparr> \<and>
   Fin 0 \<noteq> NaN \<and> Fin (1 / 2) \<noteq> NaN \<and>
   Some ''fear'' = spec_dominant (scored (Fin 0) (Fin 0) (Fin (1 / 2)) (Fin (1 / 2)) (Fin 0))"
proof -
  have run: "fst (emotion_detector sample_builtins
          (answering 200 (Some (predictions
             [emotion_entry [(''joy'', JFloat (Fin (1 / 2))), (''fear'', JFloat (Fin (1 / 2)))]])))
          [65]) =
     Inr \<lparr>anger = Some (Fin 0), disgust = Some (Fin 0), fear = Some (Fin (1 / 2)),
          joy = Some (Fin (1 / 2)), sadness = Some (Fin 0), dominant_emotion = Some ''fear''\<rparr>"
    by (simp add: eval_defs)
  have "Some ''fear'' = spec_dominant (scored (Fin 0) (Fin 0) (Fin (1 / 2)) (Fin (1 / 2)) (Fin 0))"
    using dominant_emotion_is_earliest_maximum
      [OF run, where a = "Fin 0" and d = "Fin 0" and f = "Fin (1 / 2)" and j = "Fin (1 / 2)"
         and s = "Fin 0"]
    by simp
  with run show ?thesis
    by simp
qed

text \<open>
  With a NaN as the score of anger, no later score is greater than the candidate, so
  \<open>max\<close> keeps anger, although joy has the score 0.9 and anger's score is not at least it.
\<close>

theorem dominant_emotion_nan_counterexample:
  "fst (emotion_detector sample_builtins
          (answering 200 (Some (predictions
             [emotion_entry [(''anger'', JFloat NaN), (''joy'', JFloat (Fin (9 / 10)))]])))
          [65]) =
     Inr \<lparr>anger = Some NaN, disgust = Some (Fin 0), fear = Some (Fin 0),
          joy = Some (Fin (9 / 10)), sadness = Some (Fin 0), dominant_emotion = Some ''anger''\<rparr> \<and>
   \<not> py_ge NaN (Fin (9 / 10)) \<and>
   spec_dominant (scored NaN (Fin 0) (Fin 0) (Fin (9 / 10)) (Fin 0)) \<noteq> Some ''anger''"
  by (simp add: eval_defs spec_eval_defs)

text \<open>
  Claim C7 (as amended). A record returned by \<open>emotion_detector\<close> either has all six fields
  \<open>None\<close>, or has all six fields populated, with one of the five keys as dominant emotion;
  when none of the scores is a NaN, that key is the earliest key with the maximum score.
\<close>

theorem returned_record_all_or_nothing:
  assumes "fst (emotion_detector B net text) = Inr r"
  shows "r = \<lparr>anger = None, disgust = None, fear = None, joy = None, sadness = None,
              dominant_emotion = None\<rparr> \<or>
         (\<exists>a d f j s k.
            r = \<lparr>anger = Some a, disgust = Some d, fear = Some f, joy = Some j,
                 sadness = Some s, dominant_emotion = Some k\<rparr> \<and>
            k \<in> set EMOTIONS \<and>
            (a \<noteq> NaN \<and> d \<noteq> NaN \<and> f \<noteq> NaN \<and> j \<noteq> NaN \<and> s \<noteq> NaN \<longrightarrow>
               spec_dominant (scored a d f j s) = Some k))"
proof -
  from emotion_detector_shape [OF assms]
  consider "r = EMPTY_RESULT"
    | a d f j s where "r = \<lparr>anger = Some a, disgust = Some d, fear = Some f, joy = Some j,
              sadness = Some s, dominant_emotion = Some (dominant_of a d f j s)\<rparr>"
    by blast
  then show ?thesis
  proof cases
    case 1
    then show ?thesis
      by (simp add: EMPTY_RESULT_def)
  next
    case 2
    have "dominant_of a d f j s \<in> set EMOTIONS"
      by (rule dominant_of_emotion)
    moreover have "a \<noteq> NaN \<and> d \<noteq> NaN \<and> f \<noteq> NaN \<and> j \<noteq> NaN \<and> s \<noteq> NaN \<longrightarrow>
               spec_dominant (scored a d f j s) = Some (dominant_of a d f j s)"
      using dominant_of_spec by blast
    ultimately show ?thesis
      using 2 by blast
  qed
qed

text \<open>The text "Hi", answered with anger at 1.\<close>

theorem returned_record_all_or_nothing_witness:
  "fst (emotion_detector sample_builtins
          (answering 200 (Some (predictions [emotion_entry [(''anger'', JInt 1)]])))
          [72, 105]) =
     Inr \<lparr>anger = Some (Fin 1), disgust = Some (Fin 0), fear = Some (Fin 0),
          joy = Some (Fin 0), sadness = Some (Fin 0), dominant_emotion = Some ''anger''\<rparr> \<and>
   (\<exists>a d f j s k.
      \<lparr>anger = Some (Fin 1), disgust = Some (Fin 0), fear = Some (Fin 0),
       joy = Some (Fin 0), sadness = Some (Fin 0), dominant_emotion = Some ''anger''\<rparr> =
      \<lparr>anger = Some a, disgust = Some d, fear = Some f, joy = Some j,
       sadness = Some s, dominant_emotion = Some k\<rparr> \<and>
      k \<in> set EMOTIONS \<and>
      (a \<noteq> NaN \<and> d \<noteq> NaN \<and> f \<noteq> NaN \<and> j \<noteq> NaN \<and> s \<noteq> NaN \<longrightarrow>
         spec_dominant (scored a d f j s) = Some k))"
proof -
  have run: "fst (emotion_detector sample_builtins
          (answering 200 (Some (predictions [emotion_entry [(''anger'', JInt 1)]])))
          [72, 105]) =
     Inr \<lparr>anger = Some (Fin 1), disgust = Some (Fin 0), fear = Some (Fin 0),
          joy = Some (Fin 0), sadness = Some (Fin 0), dominant_emotion = Some ''anger''\<rparr>"
    by (simp add: eval_defs)
  from returned_record_all_or_nothing [OF run]
  have "\<exists>a d f j s k.
      \<lparr>anger = Some (Fin 1), disgust = Some (Fin 0), fear = Some (Fin 0),
       joy = Some (Fin 0), sadness = Some (Fin 0), dominant_emotion = Some ''anger''\<rparr> =
      \<lparr>anger = Some a, disgust = Some d, fear = Some f, joy = Some j,
       sadness = Some s, dominant_emotion = Some k\<rparr> \<and>
      k \<in> set EMOTIONS \<and>
      (a \<noteq> NaN \<and> d \<noteq> NaN \<and> f \<noteq> NaN \<and> j \<noteq> NaN \<and> s \<noteq> NaN \<longrightarrow>
         spec_dominant (scored a d f j s) = Some k)"
    by simp
  with run show ?thesis
    by (rule conjI)
qed

text \<open>
  The body \<open>{"emotionPredictions": [{"emotion": {"anger": "nan", "sadness": 1}}]}\<close>: the
  record is populated, and its dominant emotion is anger, whose score is not a maximum.
\<close>

theorem returned_record_nan_counterexample:
  "fst (emotion_detector sample_builtins
          (answering 200 (Some (predictions
             [emotion_entry [(''anger'', JStr ''nan''), (''sadness'', JInt 1)]])))
          [72, 105]) =
     Inr \<lparr>anger = Some NaN, disgust = Some (Fin 0), fear = Some (Fin 0),
          joy = Some (Fin 0), sadness = Some (Fin 1), dominant_emotion = Some ''anger''\<rparr> \<and>
   \<not> py_ge NaN (Fin 1) \<and>
   spec_dominant (scored NaN (Fin 0) (Fin 0) (Fin 0) (Fin 1)) \<noteq> Some ''anger''"
  by (simp add: eval_defs spec_eval_defs)

section \<open>Reading the scores of the first prediction\<close>

lemma read_response_predictions:
  assumes "status_code resp \<noteq> 400" and "json_body resp = Some (JObj kvs)"
    and "map_of kvs ''emotionPredictions'' = Some (JArr (e # es))"
  shows "read_response B resp = populated B (JArr (e # es))"
  using assms by (simp add: read_response_def and_then_def)

lemma populated_first_only: "populated B (JArr (e # es)) = populated B (JArr [e])"
  by (simp add: populated_def)

lemma populated_never_empty: "populated B preds \<noteq> Inr EMPTY_RESULT"
proof
  assume "populated B preds = Inr EMPTY_RESULT"
  from populated_Inr [OF this] show False
    by (auto simp add: EMPTY_RESULT_def)
qed

lemma and_then_Inr:
  "and_then x k = Inr r \<longleftrightarrow> (\<exists>v. x = Inr v \<and> k v = Inr r)"
  by (cases x) (simp_all add: and_then_def)

lemma py_get_Inr:
  "py_get x k dflt = Inr v \<longleftrightarrow>
     (\<exists>kvs. x = JObj kvs \<and> v = (case map_of kvs k of None \<Rightarrow> dflt | Some w \<Rightarrow> w))"
  by (cases x) auto

lemma read_score:
  assumes "and_then (py_get (JObj m) k (JFloat (Fin 0))) (py_float B) = Inr x"
  shows "case map_of m k of None \<Rightarrow> x = Fin 0 | Some v \<Rightarrow> py_float B v = Inr x"
  using assms by (auto simp add: and_then_def split: option.splits)

lemma populated_scores:
  assumes "populated B (JArr (e # es)) = Inr r"
  shows "\<exists>ekvs m. e = JObj ekvs \<and>
           (case map_of ekvs ''emotion'' of None \<Rightarrow> m = [] | Some sc \<Rightarrow> sc = JObj m) \<and>
           (\<forall>k \<in> set EMOTIONS.
              case map_of m k of
                None \<Rightarrow> score_of r k = Some (Fin 0)
              | Some v \<Rightarrow> (\<exists>x. py_float B v = Inr x \<and> score_of r k = Some x))"
proof -
  from assms obtain sc a d f j s where
    sc: "py_get e ''emotion'' (JObj []) = Inr sc"
    and a: "and_then (py_get sc ''anger'' (JFloat (Fin 0))) (py_float B) = Inr a"
    and d: "and_then (py_get sc ''disgust'' (JFloat (Fin 0))) (py_float B) = Inr d"
    and f: "and_then (py_get sc ''fear'' (JFloat (Fin 0))) (py_float B) = Inr f"
    and j: "and_then (py_get sc ''joy'' (JFloat (Fin 0))) (py_float B) = Inr j"
    and s: "and_then (py_get sc ''sadness'' (JFloat (Fin 0))) (py_float B) = Inr s"
    and r: "r = \<lparr>anger = Some a, disgust = Some d, fear = Some f, joy = Some j,
                 sadness = Some s, dominant_emotion = Some (dominant_of a d f j s)\<rparr>"
    unfolding populated_def and_then_Inr Let_def by auto
  from sc obtain ekvs where e: "e = JObj ekvs"
    and scv: "sc = (case map_of ekvs ''emotion'' of None \<Rightarrow> JObj [] | Some w \<Rightarrow> w)"
    unfolding py_get_Inr by blast
  from a obtain m where m: "sc = JObj m"
    unfolding and_then_Inr py_get_Inr by blast
  have shape: "case map_of ekvs ''emotion'' of None \<Rightarrow> m = [] | Some w \<Rightarrow> w = JObj m"
    using scv m by (simp split: option.splits)
  note reads = read_score [OF a [unfolded m]] read_score [OF d [unfolded m]]
    read_score [OF f [unfolded m]] read_score [OF j [unfolded m]] read_score [OF s [unfolded m]]
  have "\<forall>k \<in> set EMOTIONS.
              case map_of m k of
                None \<Rightarrow> score_of r k = Some (Fin 0)
              | Some v \<Rightarrow> (\<exists>x. py_float B v = Inr x \<and> score_of r k = Some x)"
    using reads by (simp add: EMOTIONS_def score_of_def r split: option.splits)
  with e shape show ?thesis
    by blast
qed

lemma read_score_ok:
  assumes "case map_of m k of None \<Rightarrow> True
           | Some v \<Rightarrow> (case py_float B v of Inl err \<Rightarrow> False | Inr x \<Rightarrow> True)"
  shows "\<exists>x. and_then (py_get (JObj m) k (JFloat (Fin 0))) (py_float B) = Inr x"
  using assms by (auto simp add: and_then_def split: option.splits sum.splits)

lemma readable_entry_populated:
  assumes "readable_entry B e"
  shows "\<exists>r. populated B (JArr (e # es)) = Inr r"
proof -
  from assms obtain ekvs where e: "e = JObj ekvs"
    by (auto simp add: readable_entry_def split: json.splits)
  define m where "m = (case map_of ekvs ''emotion'' of None \<Rightarrow> [] | Some (JObj m') \<Rightarrow> m' | Some _ \<Rightarrow> [])"
  have sc: "py_get e ''emotion'' (JObj []) = Inr (JObj m)"
    using assms by (auto simp add: e m_def readable_entry_def split: option.splits json.splits)
  have ok: "\<forall>k \<in> set EMOTIONS. case map_of m k of None \<Rightarrow> True
           | Some v \<Rightarrow> (case py_float B v of Inl err \<Rightarrow> False | Inr x \<Rightarrow> True)"
    using assms
    by (auto simp add: e m_def readable_entry_def list_all_iff split: option.splits json.splits)
  have "\<exists>x. and_then (py_get (JObj m) ''anger'' (JFloat (Fin 0))) (py_float B) = Inr x"
    by (rule read_score_ok) (use ok in \<open>simp add: EMOTIONS_def\<close>)
  moreover have "\<exists>x. and_then (py_get (JObj m) ''disgust'' (JFloat (Fin 0))) (py_float B) = Inr x"
    by (rule read_score_ok) (use ok in \<open>simp add: EMOTIONS_def\<close>)
  moreover have "\<exists>x. and_then (py_get (JObj m) ''fear'' (JFloat (Fin 0))) (py_float B) = Inr x"
    by (rule read_score_ok) (use ok in \<open>simp add: EMOTIONS_def\<close>)
  moreover have "\<exists>x. and_then (py_get (JObj m) ''joy'' (JFloat (Fin 0))) (py_float B) = Inr x"
    by (rule read_score_ok) (use ok in \<open>simp add: EMOTIONS_def\<close>)
  moreover have "\<exists>x. and_then (py_get (JObj m) ''sadness'' (JFloat (Fin 0))) (py_float B) = Inr x"
    by (rule read_score_ok) (use ok in \<open>simp add: EMOTIONS_def\<close>)
  ultimately obtain a d f j s where
    "and_then (py_get (JObj m) ''anger'' (JFloat (Fin 0))) (py_float B) = Inr a"
    "and_then (py_get (JObj m) ''disgust'' (JFloat (Fin 0))) (py_float B) = Inr d"
    "and_then (py_get (JObj m) ''fear'' (JFloat (Fin 0))) (py_float B) = Inr f"
    "and_then (py_get (JObj m) ''joy'' (JFloat (Fin 0))) (py_float B) = Inr j"
    "and_then (py_get (JObj m) ''sadness'' (JFloat (Fin 0))) (py_float B) = Inr s"
    by blast
  then show ?thesis
    unfolding populated_def and_then_Inr Let_def using sc by simp
qed

section \<open>Responses that give no scores\<close>

text \<open>
  Claim C6. When the outbound call, made with the timeout of 10, fails at the transport
  level (a connection error or a timeout), \<open>emotion_detector\<close> ends with that failure as an
  exception for its caller: the outcome is the exception, not the all-\<open>None\<close> record.
\<close>

theorem transport_failure_propagates:
  assumes "\<not> blank text" and "net (watson_request text) = Inl e"
  shows "emotion_detector B net text =
           (Inl (TransportFailure e),
            [\<lparr>url = WATSON_URL, headers = HEADERS, payload_text = text, timeout = 10\<rparr>]) \<and>
         fst (emotion_detector B net text) \<noteq> Inr EMPTY_RESULT"
  using emotion_detector_failed [of "text" net e B, OF assms]
  by (simp add: watson_request_def)

text \<open>
  The text "A" on a network where every call times out.
\<close>

theorem transport_failure_propagates_witness:
  "\<not> blank [65] \<and> failing Timeout (watson_request [65]) = Inl Timeout \<and>
   emotion_detector sample_builtins (failing Timeout) [65] =
     (Inl (TransportFailure Timeout),
      [\<lparr>url = WATSON_URL, headers = HEADERS, payload_text = [65], timeout = 10\<rparr>])"
proof -
  have h1: "\<not> blank [65]"
    by (simp add: blank_def py_isspace_def)
  have h2: "failing Timeout (watson_request [65]) = Inl Timeout"
    by (simp add: failing_def)
  from transport_failure_propagates
      [of "[65]" "failing Timeout" Timeout sample_builtins, OF h1 h2] h1 h2
  show ?thesis
    by simp
qed

text \<open>
  The paths that end in the sentinel. When the response has status 400, or its body does
  not decode as JSON, or the decoded body is an object whose \<open>emotionPredictions\<close> member
  is missing or falsy (the empty list in particular), \<open>emotion_detector\<close> returns the
  all-\<open>None\<close> record, and no exception reaches the caller.
\<close>

theorem error_responses_give_sentinel:
  assumes "\<not> blank text" and "net (watson_request text) = Inr resp"
    and "status_code resp = 400 \<or> json_body resp = None \<or>
         (\<exists>kvs. json_body resp = Some (JObj kvs) \<and>
            (case map_of kvs ''emotionPredictions'' of
               None \<Rightarrow> True | Some preds \<Rightarrow> \<not> truthy preds))"
  shows "fst (emotion_detector B net text) =
           Inr \<lparr>anger = None, disgust = None, fear = None, joy = None, sadness = None,
                dominant_emotion = None\<rparr>"
proof -
  have "read_response B resp = Inr EMPTY_RESULT"
    using assms(3)
    by (auto simp add: read_response_def and_then_def split: option.splits)
  then show ?thesis
    using emotion_detector_answered [of "text" net resp B, OF assms(1,2)]
    by (simp add: EMPTY_RESULT_def)
qed

text \<open>
  The body \<open>{"emotionPredictions": []}\<close> with status 200.
\<close>

theorem error_responses_give_sentinel_witness:
  "\<not> blank [65] \<and>
   answering 200 (Some (predictions [])) (watson_request [65]) =
     Inr \<lparr>status_code = 200, json_body = Some (JObj [(''emotionPredictions'', JArr [])])\<rparr> \<and>
   (case map_of [(''emotionPredictions'', JArr [])] ''emotionPredictions'' of
      None \<Rightarrow> True | Some preds \<Rightarrow> \<not> truthy preds) \<and>
   fst (emotion_detector sample_builtins (answering 200 (Some (predictions []))) [65]) =
     Inr \<lparr>anger = None, disgust = None, fear = None, joy = None, sadness = None,
          dominant_emotion = None\<rparr>"
proof -
  have h1: "\<not> blank [65]"
    by (simp add: blank_def py_isspace_def)
  have h2: "answering 200 (Some (predictions [])) (watson_request [65]) =
     Inr \<lparr>status_code = 200, json_body = Some (JObj [(''emotionPredictions'', JArr [])])\<rparr>"
    by (simp add: answering_def predictions_def)
  have h3: "case map_of [(''emotionPredictions'', JArr [])] ''emotionPredictions'' of
      None \<Rightarrow> True | Some preds \<Rightarrow> \<not> truthy preds"
    by simp
  have "fst (emotion_detector sample_builtins (answering 200 (Some (predictions []))) [65]) =
     Inr \<lparr>anger = None, disgust = None, fear = None, joy = None, sadness = None,
          dominant_emotion = None\<rparr>"
    using h3
    by (intro error_responses_give_sentinel
          [of "[65]" "answering 200 (Some (predictions []))", OF h1 h2]) simp
  with h1 h2 h3 show ?thesis
    by blast
qed

text \<open>
  Claim C3. A response whose decoded body contains no prediction entries is to give the
  all-\<open>None\<close> record, with no exception for the caller; the docstring of \<open>emotion_detector\<close>
  promises the same ("All None for blank/400/error"). The code misses one case. The body
  \<open>[]\<close> with status 200 decodes as JSON and contains no prediction entries, but a list has
  no \<open>get\<close>: line 38 raises AttributeError, just outside the \<open>try\<close> of lines 33 to 36, and
  the exception reaches the caller.
\<close>

theorem no_predictions_counterexample:
  "prediction_entries (JArr []) = [] \<and>
   fst (emotion_detector sample_builtins (answering 200 (Some (JArr []))) [65]) =
     Inl AttributeError"
  by (simp add: eval_defs prediction_entries_def)

text \<open>
  Claim C9 (as amended). Only the status 400 triggers the status-based sentinel. For a
  response with any other status whose body decodes to an object with a non-empty
  \<open>emotionPredictions\<close> list, \<open>emotion_detector\<close> never returns the all-\<open>None\<close> record:
  every record it returns is fully populated, and it does return one when the scores of
  the first entry can be read.
\<close>

theorem other_status_never_sentinel:
  assumes "\<not> blank text" and "net (watson_request text) = Inr resp"
    and "status_code resp \<noteq> 400" and "json_body resp = Some (JObj kvs)"
    and "map_of kvs ''emotionPredictions'' = Some (JArr (e # es))"
  shows "fst (emotion_detector B net text) \<noteq> Inr EMPTY_RESULT \<and>
         (\<forall>r. fst (emotion_detector B net text) = Inr r \<longrightarrow>
            (\<exists>a d f j s k. r = \<lparr>anger = Some a, disgust = Some d, fear = Some f, joy = Some j,
               sadness = Some s, dominant_emotion = Some k\<rparr>)) \<and>
         (readable_entry B e \<longrightarrow> (\<exists>r. fst (emotion_detector B net text) = Inr r))"
proof -
  have run: "fst (emotion_detector B net text) = populated B (JArr (e # es))"
    using emotion_detector_answered [of "text" net resp B, OF assms(1,2)]
      read_response_predictions [OF assms(3-5), of B]
    by simp
  have one: "fst (emotion_detector B net text) \<noteq> Inr EMPTY_RESULT"
    using run populated_never_empty by simp
  have two: "\<forall>r. fst (emotion_detector B net text) = Inr r \<longrightarrow>
            (\<exists>a d f j s k. r = \<lparr>anger = Some a, disgust = Some d, fear = Some f, joy = Some j,
               sadness = Some s, dominant_emotion = Some k\<rparr>)"
    using run populated_Inr by metis
  have three: "readable_entry B e \<longrightarrow> (\<exists>r. fst (emotion_detector B net text) = Inr r)"
    using run readable_entry_populated by simp
  from one two three show ?thesis
    by blast
qed

text \<open>
  Status 500 with the body \<open>{"emotionPredictions": [{"emotion": {"sadness": true}}]}\<close>.
\<close>

theorem other_status_never_sentinel_witness:
  "\<not> blank [65] \<and> (500 :: int) \<noteq> 400 \<and>
   readable_entry sample_builtins (emotion_entry [(''sadness'', JBool True)]) \<and>
   fst (emotion_detector sample_builtins
          (answering 500 (Some (predictions [emotion_entry [(''sadness'', JBool True)]]))) [65]) =
     Inr \<lparr>anger = Some (Fin 0), disgust = Some (Fin 0), fear = Some (Fin 0), joy = Some (Fin 0),
          sadness = Some (Fin 1), dominant_emotion = Some ''sadness''\<rparr> \<and>
   fst (emotion_detector sample_builtins
          (answering 500 (Some (predictions [emotion_entry [(''sadness'', JBool True)]]))) [65]) \<noteq>
     Inr EMPTY_RESULT"
proof -
  let ?e = "emotion_entry [(''sadness'', JBool True)]"
  let ?resp = "\<lparr>status_code = 500, json_body = Some (JObj [(''emotionPredictions'', JArr [?e])])\<rparr>"
  have h1: "\<not> blank [65]"
    by (simp add: blank_def py_isspace_def)
  have h2: "answering 500 (Some (predictions [?e])) (watson_request [65]) = Inr ?resp"
    by (simp add: answering_def predictions_def)
  have h3: "status_code ?resp \<noteq> 400"
    by simp
  have h4: "json_body ?resp = Some (JObj [(''emotionPredictions'', JArr [?e])])"
    by simp
  have h5: "map_of [(''emotionPredictions'', JArr [?e])] ''emotionPredictions'' = Some (JArr (?e # []))"
    by simp
  have rd: "readable_entry sample_builtins ?e"
    by (simp add: readable_entry_def emotion_entry_def EMOTIONS_def)
  have run: "fst (emotion_detector sample_builtins (answering 500 (Some (predictions [?e]))) [65]) =
     Inr \<lparr>anger = Some (Fin 0), disgust = Some (Fin 0), fear = Some (Fin 0), joy = Some (Fin 0),
          sadness = Some (Fin 1), dominant_emotion = Some ''sadness''\<rparr>"
    by (simp add: eval_defs)
  from other_status_never_sentinel
      [of "[65]" "answering 500 (Some (predictions [?e]))" _ _ _ _ sample_builtins,
         OF h1 h2 h3 h4 h5]
  have "fst (emotion_detector sample_builtins (answering 500 (Some (predictions [?e]))) [65]) \<noteq>
     Inr EMPTY_RESULT"
    by blast
  with h1 rd run show ?thesis
    by simp
qed

text \<open>
  Status 404 with one prediction entry whose anger is \<open>null\<close>: \<open>float(None)\<close> raises
  TypeError, so no record is returned at all.
\<close>

theorem other_status_counterexample:
  "prediction_entries (predictions [emotion_entry [(''anger'', JNull)]]) =
     [emotion_entry [(''anger'', JNull)]] \<and>
   fst (emotion_detector sample_builtins
          (answering 404 (Some (predictions [emotion_entry [(''anger'', JNull)]]))) [65]) =
     Inl TypeError"
  by (simp add: eval_defs prediction_entries_def)

section \<open>Values that are not numbers\<close>

text \<open>
  Claim C10. The guard of lines 33 to 36 covers the decoding of the body only. When the
  body decodes, the first prediction entry has an \<open>emotion\<close> object, and a value under one
  of the five keys is one \<open>float\<close> rejects, \<open>emotion_detector\<close> ends with an exception
  instead of returning the all-\<open>None\<close> record.
\<close>

theorem uncoercible_score_raises:
  assumes "\<not> blank text" and "net (watson_request text) = Inr resp"
    and "status_code resp \<noteq> 400" and "json_body resp = Some (JObj kvs)"
    and "map_of kvs ''emotionPredictions'' = Some (JArr (JObj ekvs # es))"
    and "map_of ekvs ''emotion'' = Some (JObj m)"
    and "k \<in> set EMOTIONS" and "map_of m k = Some v" and "py_float B v = Inl err"
  shows "\<exists>err'. fst (emotion_detector B net text) = Inl err'"
proof -
  have run: "fst (emotion_detector B net text) = populated B (JArr (JObj ekvs # es))"
    using emotion_detector_answered [of "text" net resp B, OF assms(1,2)]
      read_response_predictions [OF assms(3-5), of B]
    by simp
  have "populated B (JArr (JObj ekvs # es)) \<noteq> Inr r" for r
  proof
    assume "populated B (JArr (JObj ekvs # es)) = Inr r"
    from populated_scores [OF this] assms(6) obtain m' where
      "JObj m = JObj m'"
      and "\<forall>k \<in> set EMOTIONS.
              case map_of m' k of
                None \<Rightarrow> score_of r k = Some (Fin 0)
              | Some v \<Rightarrow> (\<exists>x. py_float B v = Inr x \<and> score_of r k = Some x)"
      by auto
    with assms(7,8) have "\<exists>x. py_float B v = Inr x"
      by fastforce
    with assms(9) show False
      by simp
  qed
  then obtain err' where "populated B (JArr (JObj ekvs # es)) = Inl err'"
    by (cases "populated B (JArr (JObj ekvs # es))") auto
  with run show ?thesis
    by simp
qed

text \<open>
  The body \<open>{"emotionPredictions": [{"emotion": {"joy": "high"}}]}\<close>: \<open>float("high")\<close>
  raises ValueError, and so does \<open>emotion_detector\<close>.
\<close>

theorem uncoercible_score_raises_witness:
  "\<not> blank [65] \<and> ''joy'' \<in> set EMOTIONS \<and>
   py_float sample_builtins (JStr ''high'') = Inl ValueError \<and>
   (\<exists>err'. fst (emotion_detector sample_builtins
      (answering 200 (Some (predictions [emotion_entry [(''joy'', JStr ''high'')]]))) [65]) =
      Inl err') \<and>
   fst (emotion_detector sample_builtins
      (answering 200 (Some (predictions [emotion_entry [(''joy'', JStr ''high'')]]))) [65]) =
      Inl ValueError"
proof -
  let ?m = "[(''joy'', JStr ''high'')]"
  let ?ekvs = "[(''emotion'', JObj ?m)]"
  let ?kvs = "[(''emotionPredictions'', JArr [JObj ?ekvs])]"
  let ?resp = "\<lparr>status_code = 200, json_body = Some (JObj ?kvs)\<rparr>"
  let ?net = "answering 200 (Some (predictions [emotion_entry ?m]))"
  have h1: "\<not> blank [65]"
    by (simp add: blank_def py_isspace_def)
  have h2: "?net (watson_request [65]) = Inr ?resp"
    by (simp add: answering_def predictions_def emotion_entry_def)
  have h3: "status_code ?resp \<noteq> 400"
    by simp
  have h4: "json_body ?resp = Some (JObj ?kvs)"
    by simp
  have h5: "map_of ?kvs ''emotionPredictions'' = Some (JArr (JObj ?ekvs # []))"
    by simp
  have h6: "map_of ?ekvs ''emotion'' = Some (JObj ?m)"
    by simp
  have h7: "''joy'' \<in> set EMOTIONS"
    by (simp add: EMOTIONS_def)
  have h8: "map_of ?m ''joy'' = Some (JStr ''high'')"
    by simp
  have h9: "py_float sample_builtins (JStr ''high'') = Inl ValueError"
    by (simp add: sample_builtins_def)
  have raised: "\<exists>err'. fst (emotion_detector sample_builtins ?net [65]) = Inl err'"
    by (rule uncoercible_score_raises [of "[65]" ?net, OF h1 h2 h3 h4 h5 h6 h7 h8 h9])
  have run: "fst (emotion_detector sample_builtins ?net [65]) = Inl ValueError"
    by (simp add: eval_defs)
  from h1 h7 h9 raised run show ?thesis
    by blast
qed

section \<open>The first prediction entry\<close>

text \<open>
  Claim C4. For a success response whose decoded body holds one or more prediction
  entries, the outcome of \<open>emotion_detector\<close> depends on the first entry only: any other
  response with the same first entry, whatever follows it, gives the same outcome. In the
  record returned, the score of each of the five keys is \<open>float\<close> of the value the first
  entry's \<open>emotion\<close> object holds under that key, and 0.0 when the key is missing. A record
  is returned whenever the first entry is readable: missing keys do not make the client
  fail.
\<close>

theorem scores_come_from_first_entry:
  assumes "\<not> blank text" and "net (watson_request text) = Inr resp"
    and "status_code resp \<noteq> 400" and "json_body resp = Some (JObj kvs)"
    and "map_of kvs ''emotionPredictions'' = Some (JArr (e # es))"
  shows "(\<forall>text' net' resp' kvs' es'.
            \<not> blank text' \<and> net' (watson_request text') = Inr resp' \<and>
            status_code resp' \<noteq> 400 \<and> json_body resp' = Some (JObj kvs') \<and>
            map_of kvs' ''emotionPredictions'' = Some (JArr (e # es')) \<longrightarrow>
            fst (emotion_detector B net' text') = fst (emotion_detector B net text)) \<and>
         (\<forall>r. fst (emotion_detector B net text) = Inr r \<longrightarrow>
            (\<exists>ekvs m. e = JObj ekvs \<and>
               (case map_of ekvs ''emotion'' of None \<Rightarrow> m = [] | Some sc \<Rightarrow> sc = JObj m) \<and>
               (\<forall>k \<in> set EMOTIONS.
                  case map_of m k of
                    None \<Rightarrow> score_of r k = Some (Fin 0)
                  | Some v \<Rightarrow> (\<exists>x. py_float B v = Inr x \<and> score_of r k = Some x)))) \<and>
         (readable_entry B e \<longrightarrow> (\<exists>r. fst (emotion_detector B net text) = Inr r))"
proof -
  have run: "fst (emotion_detector B net text) = populated B (JArr [e])"
    using emotion_detector_answered [of "text" net resp B, OF assms(1,2)]
      read_response_predictions [OF assms(3-5), of B] populated_first_only [of B e es]
    by simp
  have one: "fst (emotion_detector B net' text') = fst (emotion_detector B net text)"
    if h: "\<not> blank text'" "net' (watson_request text') = Inr resp'"
      "status_code resp' \<noteq> 400" "json_body resp' = Some (JObj kvs')"
      "map_of kvs' ''emotionPredictions'' = Some (JArr (e # es'))"
    for text' net' resp' kvs' es'
  proof -
    have "fst (emotion_detector B net' text') = populated B (JArr [e])"
      using emotion_detector_answered [of text' net' resp' B, OF h(1,2)]
        read_response_predictions [OF h(3-5), of B] populated_first_only [of B e es']
      by simp
    with run show ?thesis
      by simp
  qed
  have two: "\<exists>ekvs m. e = JObj ekvs \<and>
               (case map_of ekvs ''emotion'' of None \<Rightarrow> m = [] | Some sc \<Rightarrow> sc = JObj m) \<and>
               (\<forall>k \<in> set EMOTIONS.
                  case map_of m k of
                    None \<Rightarrow> score_of r k = Some (Fin 0)
                  | Some v \<Rightarrow> (\<exists>x. py_float B v = Inr x \<and> score_of r k = Some x))"
    if "fst (emotion_detector B net text) = Inr r" for r
  proof -
    from that run have "populated B (JArr (e # [])) = Inr r"
      by simp
    then show ?thesis
      by (rule populated_scores)
  qed
  have three: "readable_entry B e \<longrightarrow> (\<exists>r. fst (emotion_detector B net text) = Inr r)"
    using run readable_entry_populated [of B e "[]"] by simp
  from one two three show ?thesis
    by blast
qed

text \<open>
  Two prediction entries, joy at 0.5 in the first and anger at 1 in the second: the record
  has anger at the default 0.0, and it is the record obtained from the first entry alone.
\<close>

theorem scores_come_from_first_entry_witness:
  "\<not> blank [65] \<and>
   readable_entry sample_builtins (emotion_entry [(''joy'', JFloat (Fin (1 / 2)))]) \<and>
   (\<exists>r. fst (emotion_detector sample_builtins
      (answering 200 (Some (predictions
         [emotion_entry [(''joy'', JFloat (Fin (1 / 2)))], emotion_entry [(''anger'', JInt 1)]])))
      [65]) = Inr r) \<and>
   fst (emotion_detector sample_builtins
      (answering 200 (Some (predictions
         [emotion_entry [(''joy'', JFloat (Fin (1 / 2)))], emotion_entry [(''anger'', JInt 1)]])))
      [65]) =
     Inr \<lparr>anger = Some (Fin 0), disgust = Some (Fin 0), fear = Some (Fin 0),
          joy = Some (Fin (1 / 2)), sadness = Some (Fin 0), dominant_emotion = Some ''joy''\<rparr> \<and>
   fst (emotion_detector sample_builtins
      (answering 200 (Some (predictions [emotion_entry [(''joy'', JFloat (Fin (1 / 2)))]])))
      [66]) =
   fst (emotion_detector sample_builtins
      (answering 200 (Some (predictions
         [emotion_entry [(''joy'', JFloat (Fin (1 / 2)))], emotion_entry [(''anger'', JInt 1)]])))
      [65])"
proof -
  let ?e = "emotion_entry [(''joy'', JFloat (Fin (1 / 2)))]"
  let ?e2 = "emotion_entry [(''anger'', JInt 1)]"
  let ?kvs = "[(''emotionPredictions'', JArr [?e, ?e2])]"
  let ?resp = "\<lparr>status_code = 200, json_body = Some (JObj ?kvs)\<rparr>"
  let ?net = "answering 200 (Some (predictions [?e, ?e2]))"
  let ?kvs' = "[(''emotionPredictions'', JArr [?e])]"
  let ?resp' = "\<lparr>status_code = 200, json_body = Some (JObj ?kvs')\<rparr>"
  let ?net' = "answering 200 (Some (predictions [?e]))"
  have h1: "\<not> blank [65]"
    by (simp add: blank_def py_isspace_def)
  have h2: "?net (watson_request [65]) = Inr ?resp"
    by (simp add: answering_def predictions_def)
  have h3: "status_code ?resp \<noteq> 400"
    by simp
  have h4: "json_body ?resp = Some (JObj ?kvs)"
    by simp
  have h5: "map_of ?kvs ''emotionPredictions'' = Some (JArr (?e # [?e2]))"
    by simp
  note t = scores_come_from_first_entry [of "[65]" ?net, OF h1 h2 h3 h4 h5, of sample_builtins]
  have g: "\<not> blank [66] \<and> ?net' (watson_request [66]) = Inr ?resp' \<and>
     status_code ?resp' \<noteq> 400 \<and> json_body ?resp' = Some (JObj ?kvs') \<and>
     map_of ?kvs' ''emotionPredictions'' = Some (JArr (?e # []))"
    by (simp add: blank_def py_isspace_def answering_def predictions_def)
  from t g have same: "fst (emotion_detector sample_builtins ?net' [66]) =
      fst (emotion_detector sample_builtins ?net [65])"
    by blast
  have rd: "readable_entry sample_builtins ?e"
    by (simp add: readable_entry_def emotion_entry_def EMOTIONS_def)
  from t rd have ret: "\<exists>r. fst (emotion_detector sample_builtins ?net [65]) = Inr r"
    by blast
  have run: "fst (emotion_detector sample_builtins ?net [65]) =
     Inr \<lparr>anger = Some (Fin 0), disgust = Some (Fin 0), fear = Some (Fin 0),
          joy = Some (Fin (1 / 2)), sadness = Some (Fin 0), dominant_emotion = Some ''joy''\<rparr>"
    by (simp add: eval_defs)
  from h1 rd ret run same show ?thesis
    by blast
qed

section \<open>The endpoint\<close>

lemma fmt_score_Some: "fmt_score B (Some x) = float_repr B x"
  by (simp add: fmt_score_def)

text \<open>
  Claim C5. For a request of any method, let the normalized result be the record
  \<open>emotion_detector\<close> returns for the trimmed field. When its dominant emotion is \<open>None\<close> the
  handler answers with the literal body "Invalid text! Please try again!" and status 200.
  Otherwise the record is fully populated and the handler answers with status 200 and
  the sentence that holds the five scores under the labels \<open>'anger':\<close>, \<open>'disgust':\<close>,
  \<open>'fear':\<close>, \<open>'joy':\<close> and \<open>'sadness':\<close>, followed by "The dominant emotion is" and the
  name.
\<close>

theorem route_renders_result:
  assumes "fst (emotion_detector B net
             (strip (or_empty ((if http_method req = ''GET'' then args req else form req)
                ''textToAnalyze'')))) = Inr r"
  shows "(dominant_emotion r = None \<longrightarrow>
            fst (emotion_detector_route B net req) =
              Inr (''Invalid text! Please try again!'', 200)) \<and>
         (\<forall>name. dominant_emotion r = Some name \<longrightarrow>
            (\<exists>a d f j s.
               r = \<lparr>anger = Some a, disgust = Some d, fear = Some f, joy = Some j,
                    sadness = Some s, dominant_emotion = Some name\<rparr> \<and>
               fst (emotion_detector_route B net req) =
                 Inr (''For the given statement, the system response is 'anger': '' @
                      float_repr B a @ '', 'disgust': '' @ float_repr B d @
                      '', 'fear': '' @ float_repr B f @ '', 'joy': '' @ float_repr B j @
                      '' and 'sadness': '' @ float_repr B s @
                      ''. The dominant emotion is '' @ name @ ''.'', 200)))"
proof -
  let ?text = "strip (or_empty ((if http_method req = ''GET'' then args req else form req)
                ''textToAnalyze''))"
  obtain calls where ed: "emotion_detector B net ?text = (Inr r, calls)"
    using assms by (cases "emotion_detector B net ?text") simp
  have route: "fst (emotion_detector_route B net req) =
      (case dominant_emotion r of
         None \<Rightarrow> Inr (''Invalid text! Please try again!'', 200)
       | Some name \<Rightarrow> Inr (formatted B r name, 200))"
  proof (cases "http_method req = ''GET''")
    case True
    with ed show ?thesis
      by (simp add: emotion_detector_route_def split: option.splits)
  next
    case False
    with ed show ?thesis
      by (simp add: emotion_detector_route_def split: option.splits)
  qed
  have one: "dominant_emotion r = None \<longrightarrow>
            fst (emotion_detector_route B net req) =
              Inr (''Invalid text! Please try again!'', 200)"
    using route by simp
  have two: "\<exists>a d f j s.
               r = \<lparr>anger = Some a, disgust = Some d, fear = Some f, joy = Some j,
                    sadness = Some s, dominant_emotion = Some name\<rparr> \<and>
               fst (emotion_detector_route B net req) =
                 Inr (''For the given statement, the system response is 'anger': '' @
                      float_repr B a @ '', 'disgust': '' @ float_repr B d @
                      '', 'fear': '' @ float_repr B f @ '', 'joy': '' @ float_repr B j @
                      '' and 'sadness': '' @ float_repr B s @
                      ''. The dominant emotion is '' @ name @ ''.'', 200)"
    if name: "dominant_emotion r = Some name" for name
  proof -
    from emotion_detector_shape [OF assms] name
    obtain a d f j s where
      r: "r = \<lparr>anger = Some a, disgust = Some d, fear = Some f, joy = Some j,
                sadness = Some s, dominant_emotion = Some name\<rparr>"
      by (auto simp add: EMPTY_RESULT_def)
    have "formatted B r name =
            ''For the given statement, the system response is 'anger': '' @
            float_repr B a @ '', 'disgust': '' @ float_repr B d @
            '', 'fear': '' @ float_repr B f @ '', 'joy': '' @ float_repr B j @
            '' and 'sadness': '' @ float_repr B s @
            ''. The dominant emotion is '' @ name @ ''.''"
      unfolding formatted_def r by (simp only: result.simps fmt_score_Some)
    with route name r show ?thesis
      by simp
  qed
  from one two show ?thesis
    by blast
qed

text \<open>
  A GET request with the field " Hi" followed by a newline, answered with anger at -0.0
  and joy at 0.5: the negative zero is printed as such.
\<close>

theorem route_renders_result_witness:
  "fst (emotion_detector sample_builtins
          (answering 200 (Some (predictions
             [emotion_entry [(''anger'', JFloat NegZero), (''joy'', JFloat (Fin (1 / 2)))]])))
          [72, 105]) =
     Inr \<lparr>anger = Some NegZero, disgust = Some (Fin 0), fear = Some (Fin 0),
          joy = Some (Fin (1 / 2)), sadness = Some (Fin 0), dominant_emotion = Some ''joy''\<rparr> \<and>
   fst (emotion_detector_route sample_builtins
          (answering 200 (Some (predictions
             [emotion_entry [(''anger'', JFloat NegZero), (''joy'', JFloat (Fin (1 / 2)))]])))
          \<lparr>http_method = ''GET'', args = [''textToAnalyze'' \<mapsto> [32, 72, 105, 10]],
           form = Map.empty\<rparr>) =
     Inr (''For the given statement, the system response is 'anger': -0.0, 'disgust': 0.0, 'fear': 0.0, 'joy': 0.5 and 'sadness': 0.0. The dominant emotion is joy.'', 200)"
proof -
  let ?net = "answering 200 (Some (predictions
             [emotion_entry [(''anger'', JFloat NegZero), (''joy'', JFloat (Fin (1 / 2)))]]))"
  let ?req = "\<lparr>http_method = ''GET'', args = [''textToAnalyze'' \<mapsto> [32, 72, 105, 10]],
           form = Map.empty\<rparr>"
  let ?r = "\<lparr>anger = Some NegZero, disgust = Some (Fin 0), fear = Some (Fin 0),
          joy = Some (Fin (1 / 2)), sadness = Some (Fin 0), dominant_emotion = Some ''joy''\<rparr>"
  have trimmed: "strip (or_empty ((if http_method ?req = ''GET'' then args ?req else form ?req)
                ''textToAnalyze'')) = [72, 105]"
    by (simp add: strip_def or_empty_def py_isspace_def)
  have run: "fst (emotion_detector sample_builtins ?net [72, 105]) = Inr ?r"
    by (simp add: eval_defs)
  have h: "fst (emotion_detector sample_builtins ?net
             (strip (or_empty ((if http_method ?req = ''GET'' then args ?req else form ?req)
                ''textToAnalyze'')))) = Inr ?r"
    unfolding trimmed by (rule run)
  from route_renders_result [OF h]
  have "fst (emotion_detector_route sample_builtins ?net ?req) =
     Inr (''For the given statement, the system response is 'anger': -0.0, 'disgust': 0.0, 'fear': 0.0, 'joy': 0.5 and 'sadness': 0.0. The dominant emotion is joy.'', 200)"
    by (simp add: sample_builtins_def)
  with run show ?thesis
    by (rule conjI)
qed

text \<open>
  Claim C8. A GET request that carries a value in the query parameter \<open>textToAnalyze\<close>
  and a POST request that carries the same value in the form field \<open>textToAnalyze\<close> get
  the same response (and cause the same outbound calls), whatever else the two requests
  hold; an absent field on both sides included.
\<close>

theorem get_post_same_response:
  "emotion_detector_route B net
     \<lparr>http_method = ''GET'', args = a(''textToAnalyze'' := v), form = f\<rparr> =
   emotion_detector_route B net
     \<lparr>http_method = ''POST'', args = a', form = f'(''textToAnalyze'' := v)\<rparr>"
  by (simp add: emotion_detector_route_def)

end
